theory Spec2Isabelle
  imports Complex_Main
begin

section \<open>Values, errors and the collaborators of the halo model\<close>

text \<open>
  The development follows \<^verbatim>\<open>src/halomod/halo_model.py\<close>. Numbers are real numbers
  (numpy's floats without rounding), arrays are lists, a dictionary is a map. An exception
  of the Python is the left summand of a result; the text of its message is left out,
  except the number that \<open>NGException\<close> prints, which is its argument. A quotient whose
  divisor is zero is not a number in numpy (inf or nan): it is the pseudo-error
  \<open>NotANumber\<close> here. An exception that numpy or scipy raise by themselves is
  \<open>LibraryError\<close>. The cache of derived quantities belongs to the parent package: a
  derived quantity is a function of the parameters here, which is the value the cache
  holds when it is up to date.
\<close>

datatype error =
    ValueError
  | IndexError
  | NotANumber
  | NGException real
  | LibraryError

datatype pyval = PyNone | PyStr string | PyUnicode string | PyInt int | PyObj nat

datatype even_mode = EvenAvg | EvenFirst | EvenLast

datatype opt_method = NelderMead

record fit =
  ev :: "real \<Rightarrow> real"
  derivatives :: "real \<Rightarrow> real list"

record opt_result =
  res_x :: "real list"
  res_success :: bool
  res_trace :: "real list"

text \<open>What a call of the minimiser does: it returns a result (converged or not), or the
  objective raised at an argument and the exception passes through, or the library raises
  an exception of its own.\<close>

datatype opt_outcome = Returns opt_result | ObjectiveRaised real | LibraryRaised

text \<open>
  The collaborators that the class calls and that live outside the file: the occupation
  model (\<open>hod\<close>), the mass function of the parent class (\<open>dndm\<close>), the profile, the
  native kernels (\<open>fort\<close>, \<open>thalo\<close>, \<open>tools\<close>) and the routines of scipy. They are the
  fields of an environment; every theorem holds for any environment. \<open>res_trace\<close> of a
  minimisation is the sequence of arguments at which the minimiser called the objective.
  \<open>spline\<close> is \<open>None\<close> where scipy rejects the points (\<open>LibraryError\<close> in the caller).
\<close>

record env =
  hod_mmin :: "(string \<rightharpoonup> real) \<Rightarrow> real"
  hod_ns :: "(string \<rightharpoonup> real) \<Rightarrow> real \<Rightarrow> real"
  hod_nc :: "(string \<rightharpoonup> real) \<Rightarrow> real \<Rightarrow> real"
  hod_ntot :: "(string \<rightharpoonup> real) \<Rightarrow> real \<Rightarrow> real"
  hod_sharp_cut :: "(string \<rightharpoonup> real) \<Rightarrow> bool"
  dndm_at :: "real \<Rightarrow> real"
  profile_has_lam :: bool
  fort_corr_gal_1h :: "real list \<Rightarrow> real list \<Rightarrow> real list \<Rightarrow> real list \<Rightarrow> real list \<Rightarrow> real list"
  fort_corr_gal_1h_cs :: "real list \<Rightarrow> real list \<Rightarrow> real list \<Rightarrow> real list \<Rightarrow> real list \<Rightarrow> real list"
  fort_power_gal_1h_ss :: "real list \<Rightarrow> real list \<Rightarrow> real list \<Rightarrow> real list \<Rightarrow> real list"
  power_to_corr_ogata :: "real list \<Rightarrow> real list \<Rightarrow> real list"
  thalo :: "pyval \<Rightarrow> bool \<Rightarrow> real list \<Rightarrow> real list \<Rightarrow> real list \<Rightarrow> real list \<Rightarrow> real \<Rightarrow> nat \<Rightarrow> real list"
  simps_dx :: "real list \<Rightarrow> real \<Rightarrow> even_mode \<Rightarrow> real"
  simps_x :: "real list \<Rightarrow> real list \<Rightarrow> real"
  spline :: "real list \<Rightarrow> real list \<Rightarrow> nat \<Rightarrow> fit option"
  minimize :: "(real \<Rightarrow> error + real) \<Rightarrow> real \<Rightarrow> real \<Rightarrow> opt_method \<Rightarrow> nat \<Rightarrow> opt_outcome"

text \<open>The parameters of a \<open>HaloModel\<close> instance that the file declares with \<open>@parameter\<close>.\<close>

record HaloModel =
  hod_params :: "string \<rightharpoonup> real"
  ng :: "real option"
  dlog10m :: real
  rmin :: real
  rmax :: real
  rnum :: nat
  nonlinear :: bool
  scale_dependent_bias :: bool
  halo_exclusion :: pyval
  cm_relation :: pyval
  nthreads_2halo :: nat

section \<open>Grids\<close>

text \<open>\<open>np.arange(start, stop, step)\<close>: \<open>ceil((stop - start) / step)\<close> values, none when that
  is not positive; numpy raises on a step of zero.\<close>

definition arange :: "real \<Rightarrow> real \<Rightarrow> real \<Rightarrow> error + real list" where
  "arange start stop step =
     (if step = 0 then Inl LibraryError
      else Inr (map (\<lambda>i. start + real i * step) [0 ..< nat \<lceil>(stop - start) / step\<rceil>]))"

definition linspace :: "real \<Rightarrow> real \<Rightarrow> nat \<Rightarrow> real list" where
  "linspace a b n =
     (if n = 1 then [a]
      else map (\<lambda>i. a + real i * ((b - a) / real (n - 1))) [0 ..< n])"

definition logspace :: "real \<Rightarrow> real \<Rightarrow> nat \<Rightarrow> real list" where
  "logspace a b n = map (\<lambda>e. 10 powr e) (linspace a b n)"

text \<open>\<open>rlog\<close> is the class attribute \<open>True\<close>: the radii are spaced in the logarithm.\<close>

definition rlog :: bool where
  "rlog = True"

definition r :: "HaloModel \<Rightarrow> real list" where
  "r s = (if rlog then map exp (linspace (ln (rmin s)) (ln (rmax s)) (rnum s))
          else linspace (rmin s) (rmax s) (rnum s))"

definition M :: "env \<Rightarrow> HaloModel \<Rightarrow> error + real list" where
  "M e s = (case arange (hod_mmin e (hod_params s)) 18 (dlog10m s) of
              Inl err \<Rightarrow> Inl err
            | Inr xs \<Rightarrow> Inr (map (\<lambda>x. 10 powr x) xs))"

definition n_sat :: "env \<Rightarrow> HaloModel \<Rightarrow> error + real list" where
  "n_sat e s = (case M e s of Inl err \<Rightarrow> Inl err
                | Inr ms \<Rightarrow> Inr (map (hod_ns e (hod_params s)) ms))"

definition n_cen :: "env \<Rightarrow> HaloModel \<Rightarrow> error + real list" where
  "n_cen e s = (case M e s of Inl err \<Rightarrow> Inl err
                | Inr ms \<Rightarrow> Inr (map (hod_nc e (hod_params s)) ms))"

definition n_tot :: "env \<Rightarrow> HaloModel \<Rightarrow> error + real list" where
  "n_tot e s = (case M e s of Inl err \<Rightarrow> Inl err
                | Inr ms \<Rightarrow> Inr (map (hod_ntot e (hod_params s)) ms))"

definition dndm :: "env \<Rightarrow> HaloModel \<Rightarrow> error + real list" where
  "dndm e s = (case M e s of Inl err \<Rightarrow> Inl err
               | Inr ms \<Rightarrow> Inr (map (dndm_at e) ms))"

text \<open>\<open>np.log(self.M[1]) - np.log(self.M[0])\<close>: an index error on a grid of fewer than two
  masses.\<close>

definition dlnM :: "real list \<Rightarrow> error + real" where
  "dlnM ms = (if length ms < 2 then Inl IndexError else Inr (ln (ms ! 1) - ln (ms ! 0)))"

section \<open>Densities and fractions\<close>

text \<open>The integrand \<open>self.M * self.dndm * self.n_tot\<close> on the mass grid.\<close>

definition gal_integrand :: "env \<Rightarrow> HaloModel \<Rightarrow> real list \<Rightarrow> real list" where
  "gal_integrand e s ms = map (\<lambda>m. m * dndm_at e m * hod_ntot e (hod_params s) m) ms"

definition sat_integrand :: "env \<Rightarrow> HaloModel \<Rightarrow> real list \<Rightarrow> real list" where
  "sat_integrand e s ms = map (\<lambda>m. m * dndm_at e m * hod_ns e (hod_params s) m) ms"

definition mean_gal_den :: "env \<Rightarrow> HaloModel \<Rightarrow> error + real" where
  "mean_gal_den e s =
     (case ng s of
        Some v \<Rightarrow> Inr v
      | None \<Rightarrow>
          (case M e s of Inl err \<Rightarrow> Inl err
           | Inr ms \<Rightarrow>
               (case dlnM ms of Inl err \<Rightarrow> Inl err
                | Inr dx \<Rightarrow> Inr (simps_dx e (gal_integrand e s ms) dx EvenFirst))))"

definition np_div :: "real \<Rightarrow> real \<Rightarrow> error + real" where
  "np_div a b = (if b = 0 then Inl NotANumber else Inr (a / b))"

definition satellite_fraction :: "env \<Rightarrow> HaloModel \<Rightarrow> error + real" where
  "satellite_fraction e s =
     (case M e s of Inl err \<Rightarrow> Inl err
      | Inr ms \<Rightarrow>
          (case dlnM ms of Inl err \<Rightarrow> Inl err
           | Inr dx \<Rightarrow>
               (case mean_gal_den e s of Inl err \<Rightarrow> Inl err
                | Inr d \<Rightarrow> np_div (simps_dx e (sat_integrand e s ms) dx EvenAvg) d)))"

definition central_fraction :: "env \<Rightarrow> HaloModel \<Rightarrow> error + real" where
  "central_fraction e s =
     (case satellite_fraction e s of Inl err \<Rightarrow> Inl err | Inr f \<Rightarrow> Inr (1 - f))"

section \<open>Correlation functions\<close>

text \<open>Division of an array by the square of a scalar, and the sum of two arrays with
  numpy's broadcasting of an array of one element; other shapes that differ raise.\<close>

definition arr_div_sq :: "real list \<Rightarrow> real \<Rightarrow> error + real list" where
  "arr_div_sq c d = (if d = 0 then Inl NotANumber else Inr (map (\<lambda>x. x / d ^ 2) c))"

definition np_add :: "real list \<Rightarrow> real list \<Rightarrow> error + real list" where
  "np_add xs ys =
     (if length xs = length ys then Inr (map2 (+) xs ys)
      else if length xs = 1 then Inr (map (\<lambda>y. xs ! 0 + y) ys)
      else if length ys = 1 then Inr (map (\<lambda>x. x + ys ! 0) xs)
      else Inl ValueError)"

definition power_gal_1h_ss :: "env \<Rightarrow> HaloModel \<Rightarrow> error + real list" where
  "power_gal_1h_ss e s =
     (case M e s of Inl err \<Rightarrow> Inl err
      | Inr ms \<Rightarrow>
          (case mean_gal_den e s of Inl err \<Rightarrow> Inl err
           | Inr d \<Rightarrow>
               arr_div_sq (fort_power_gal_1h_ss e ms (map (dndm_at e) ms)
                             (map (hod_ns e (hod_params s)) ms)
                             (map (hod_nc e (hod_params s)) ms)) d))"

definition corr_gal_1h_ss :: "env \<Rightarrow> HaloModel \<Rightarrow> error + real list" where
  "corr_gal_1h_ss e s =
     (case power_gal_1h_ss e s of Inl err \<Rightarrow> Inl err
      | Inr p \<Rightarrow> Inr (power_to_corr_ogata e p (r s)))"

definition corr_gal_1h_cs :: "env \<Rightarrow> HaloModel \<Rightarrow> error + real list" where
  "corr_gal_1h_cs e s =
     (case M e s of Inl err \<Rightarrow> Inl err
      | Inr ms \<Rightarrow>
          (case mean_gal_den e s of Inl err \<Rightarrow> Inl err
           | Inr d \<Rightarrow>
               arr_div_sq (fort_corr_gal_1h_cs e (r s) ms (map (dndm_at e) ms)
                             (map (hod_nc e (hod_params s)) ms)
                             (map (hod_ns e (hod_params s)) ms)) d))"

definition corr_gal_1h :: "env \<Rightarrow> HaloModel \<Rightarrow> error + real list" where
  "corr_gal_1h e s =
     (if profile_has_lam e then
        (case M e s of Inl err \<Rightarrow> Inl err
         | Inr ms \<Rightarrow>
             (case mean_gal_den e s of Inl err \<Rightarrow> Inl err
              | Inr d \<Rightarrow>
                  arr_div_sq (fort_corr_gal_1h e (r s) ms (map (dndm_at e) ms)
                                (map (hod_nc e (hod_params s)) ms)
                                (map (hod_ns e (hod_params s)) ms)) d))
      else
        (case corr_gal_1h_cs e s of Inl err \<Rightarrow> Inl err
         | Inr cs \<Rightarrow>
             (case corr_gal_1h_ss e s of Inl err \<Rightarrow> Inl err
              | Inr ss \<Rightarrow> np_add cs ss)))"

definition corr_gal_2h :: "env \<Rightarrow> HaloModel \<Rightarrow> error + real list" where
  "corr_gal_2h e s =
     (case M e s of Inl err \<Rightarrow> Inl err
      | Inr ms \<Rightarrow>
          (case mean_gal_den e s of Inl err \<Rightarrow> Inl err
           | Inr d \<Rightarrow>
               Inr (thalo e (halo_exclusion s) (scale_dependent_bias s) ms
                      (map (hod_ntot e (hod_params s)) ms) (map (dndm_at e) ms)
                      (r s) d (nthreads_2halo s))))"

definition corr_gal :: "env \<Rightarrow> HaloModel \<Rightarrow> error + real list" where
  "corr_gal e s =
     (case corr_gal_1h e s of Inl err \<Rightarrow> Inl err
      | Inr c1 \<Rightarrow>
          (case corr_gal_2h e s of Inl err \<Rightarrow> Inl err
           | Inr c2 \<Rightarrow> np_add c1 c2))"

section \<open>Parameter setters\<close>

text \<open>Python 2 equality of the values a parameter can be given: a unicode string equals
  the byte string of the same characters; an opaque object equals only itself.\<close>

fun py_eq :: "pyval \<Rightarrow> pyval \<Rightarrow> bool" where
  "py_eq PyNone PyNone = True"
| "py_eq (PyStr a) (PyStr b) = (a = b)"
| "py_eq (PyStr a) (PyUnicode b) = (a = b)"
| "py_eq (PyUnicode a) (PyStr b) = (a = b)"
| "py_eq (PyUnicode a) (PyUnicode b) = (a = b)"
| "py_eq (PyInt a) (PyInt b) = (a = b)"
| "py_eq (PyObj a) (PyObj b) = (a = b)"
| "py_eq _ _ = False"

definition py_in :: "pyval \<Rightarrow> pyval list \<Rightarrow> bool" where
  "py_in v xs = list_ex (py_eq v) xs"

fun isinstance_str :: "pyval \<Rightarrow> bool" where
  "isinstance_str (PyStr a) = True"
| "isinstance_str _ = False"

fun truthy :: "pyval \<Rightarrow> bool" where
  "truthy PyNone = False"
| "truthy (PyStr a) = (a \<noteq> [])"
| "truthy (PyUnicode a) = (a \<noteq> [])"
| "truthy (PyInt a) = (a \<noteq> 0)"
| "truthy (PyObj a) = True"

definition available_cm_relation :: "pyval list" where
  "available_cm_relation = [PyStr ''duffy'', PyStr ''zehavi'', PyStr ''bullock_rescaled'']"

definition available_halo_exclusion :: "pyval list" where
  "available_halo_exclusion =
     [PyStr ''None'', PyStr ''sphere'', PyStr ''ellipsoid'', PyStr ''ng_matched'', PyStr ''schneider'']"

definition set_cm_relation :: "pyval \<Rightarrow> error + pyval" where
  "set_cm_relation val =
     (if \<not> py_in val available_cm_relation \<and> isinstance_str val then Inl ValueError
      else Inr val)"

definition set_halo_exclusion :: "pyval \<Rightarrow> error + pyval" where
  "set_halo_exclusion val0 =
     (let val = (if val0 = PyNone then PyStr ''None'' else val0)
      in if \<not> py_in val available_halo_exclusion then Inl ValueError else Inr val)"

definition set_nonlinear :: "pyval \<Rightarrow> error + bool" where
  "set_nonlinear val = Inr (if truthy val then True else False)"

definition set_scale_dependent_bias :: "pyval \<Rightarrow> error + bool" where
  "set_scale_dependent_bias val = Inr (if truthy val then True else False)"

section \<open>Updating parameters\<close>

text \<open>The keyword arguments of \<open>update\<close>: a field is \<open>None\<close> when the keyword is absent.
  \<open>ng=None\<close> is the keyword present with the value \<open>None\<close>.\<close>

record kwargs =
  kw_ng :: "real option option"
  kw_hod_params :: "(string \<rightharpoonup> real) option"
  kw_dlog10m :: "real option"
  kw_rmin :: "real option"
  kw_rmax :: "real option"
  kw_rnum :: "nat option"
  kw_nonlinear :: "pyval option"
  kw_scale_dependent_bias :: "pyval option"
  kw_halo_exclusion :: "pyval option"
  kw_cm_relation :: "pyval option"

definition no_kwargs :: kwargs where
  "no_kwargs = \<lparr>kw_ng = None, kw_hod_params = None, kw_dlog10m = None, kw_rmin = None,
     kw_rmax = None, kw_rnum = None, kw_nonlinear = None, kw_scale_dependent_bias = None,
     kw_halo_exclusion = None, kw_cm_relation = None\<rparr>"

definition set_opt :: "('a \<Rightarrow> error + 'b) \<Rightarrow> 'a option \<Rightarrow> 'b \<Rightarrow> error + 'b" where
  "set_opt setter v old = (case v of None \<Rightarrow> Inr old | Some x \<Rightarrow> setter x)"

text \<open>
  Modelled from the spec: the \<open>update\<close> of the parent class (package \<open>hmf\<close>, not in the
  file), which the spec calls \<open>set_parameters\<close>: it "atomically applies a set of parameter
  changes", each through the setter of its parameter. A setter that raises leaves no
  parameter changed.
\<close>

definition super_update :: "kwargs \<Rightarrow> HaloModel \<Rightarrow> error + HaloModel" where
  "super_update kw s =
     (case set_opt set_nonlinear (kw_nonlinear kw) (nonlinear s) of Inl err \<Rightarrow> Inl err
      | Inr nl \<Rightarrow>
     (case set_opt set_scale_dependent_bias (kw_scale_dependent_bias kw)
             (scale_dependent_bias s) of Inl err \<Rightarrow> Inl err
      | Inr sdb \<Rightarrow>
     (case set_opt set_halo_exclusion (kw_halo_exclusion kw) (halo_exclusion s) of
        Inl err \<Rightarrow> Inl err
      | Inr he \<Rightarrow>
     (case set_opt set_cm_relation (kw_cm_relation kw) (cm_relation s) of
        Inl err \<Rightarrow> Inl err
      | Inr cm \<Rightarrow>
          Inr (s\<lparr>hod_params := (case kw_hod_params kw of None \<Rightarrow> hod_params s | Some h \<Rightarrow> h),
                 ng := (case kw_ng kw of None \<Rightarrow> ng s | Some g \<Rightarrow> g),
                 dlog10m := (case kw_dlog10m kw of None \<Rightarrow> dlog10m s | Some d \<Rightarrow> d),
                 rmin := (case kw_rmin kw of None \<Rightarrow> rmin s | Some x \<Rightarrow> x),
                 rmax := (case kw_rmax kw of None \<Rightarrow> rmax s | Some x \<Rightarrow> x),
                 rnum := (case kw_rnum kw of None \<Rightarrow> rnum s | Some x \<Rightarrow> x),
                 nonlinear := nl, scale_dependent_bias := sdb,
                 halo_exclusion := he, cm_relation := cm\<rparr>)))))"

text \<open>Lines 81 to 85 of \<open>update\<close>: which of \<open>ng\<close> and an explicit \<open>M_min\<close> wins.\<close>

definition update_ng :: "kwargs \<Rightarrow> HaloModel \<Rightarrow> kwargs \<times> HaloModel" where
  "update_ng kw s =
     (case kw_ng kw of
        Some g \<Rightarrow> (kw\<lparr>kw_ng := None\<rparr>, s\<lparr>ng := g\<rparr>)
      | None \<Rightarrow>
          (case kw_hod_params kw of
             Some h \<Rightarrow> (if h ''M_min'' \<noteq> None then (kw, s\<lparr>ng := None\<rparr>) else (kw, s))
           | None \<Rightarrow> (kw, s)))"

text \<open>Lines 81 to 87: the object after them, and the exception of the parent's update if
  it raised (the assignment to \<open>ng\<close> has then been made already).\<close>

definition update_pre :: "kwargs \<Rightarrow> HaloModel \<Rightarrow> error option \<times> HaloModel" where
  "update_pre kw s =
     (case update_ng kw s of
        (kw1, s1) \<Rightarrow>
          (case super_update kw1 s1 of Inl err \<Rightarrow> (Some err, s1) | Inr s2 \<Rightarrow> (None, s2)))"

section \<open>The minimum-mass solver\<close>

fun cumsum_from :: "real \<Rightarrow> real list \<Rightarrow> real list" where
  "cumsum_from acc [] = []"
| "cumsum_from acc (x # xs) = (acc + x) # cumsum_from (acc + x) xs"

text \<open>\<open>scipy.integrate.cumtrapz(y, dx=dx)\<close>: the running sums of \<open>dx * (y[1:] + y[:-1]) / 2\<close>.\<close>

definition cumtrapz :: "real list \<Rightarrow> real \<Rightarrow> real list" where
  "cumtrapz ys dx = cumsum_from 0 (map2 (\<lambda>a b. dx * (b + a) / 2) (butlast ys) (tl ys))"

text \<open>\<open>np.where(cond)[0][0]\<close>: the first index at which the condition holds, or an index
  error.\<close>

definition first_index :: "('a \<Rightarrow> bool) \<Rightarrow> 'a list \<Rightarrow> nat option" where
  "first_index P xs =
     (if list_ex P xs then Some (length (takeWhile (\<lambda>x. \<not> P x) xs)) else None)"

text \<open>\<open>xs[lo:hi]\<close> for bounds that are not negative.\<close>

definition py_slice :: "'a list \<Rightarrow> int \<Rightarrow> int \<Rightarrow> 'a list" where
  "py_slice xs lo hi = take (nat hi - nat lo) (drop (nat lo) xs)"

definition window :: "'a list \<Rightarrow> nat \<Rightarrow> nat \<Rightarrow> 'a list" where
  "window xs ind n = py_slice xs (max (int ind - 4) 0) (min (int ind + 4) (int n))"

definition m_min_kwargs :: "real \<Rightarrow> kwargs" where
  "m_min_kwargs mmin = no_kwargs\<lparr>kw_hod_params := Some [''M_min'' \<mapsto> mmin]\<rparr>"

text \<open>The integral of the occupation over the mass grid of an object, by Simpson's rule.\<close>

definition density_integral :: "env \<Rightarrow> HaloModel \<Rightarrow> error + real" where
  "density_integral e c =
     (case M e c of Inl err \<Rightarrow> Inl err
      | Inr ms \<Rightarrow>
          (case dlnM ms of Inl err \<Rightarrow> Inl err
           | Inr dx \<Rightarrow> Inr (simps_dx e (gal_integrand e c ms) dx EvenAvg)))"

text \<open>
  The closure \<open>model\<close> of the smooth policy. Its call \<open>c.update(hod_params={"M_min":mmin})\<close>
  passes \<open>M_min\<close> and no \<open>ng\<close>, so line 85 sets \<open>c.ng\<close> to \<open>None\<close> and lines 89 to 91 do
  nothing: the call is \<open>update_pre\<close> (lemma \<open>update_inner\<close> below). It replaces
  \<open>hod_params\<close> whole, so the object after a call depends on that call alone.
\<close>

definition model :: "env \<Rightarrow> HaloModel \<Rightarrow> real \<Rightarrow> real \<Rightarrow> error + real" where
  "model e c ng_target mmin =
     (case update_pre (m_min_kwargs mmin) c of
        (Some err, c1) \<Rightarrow> Inl err
      | (None, c1) \<Rightarrow>
          (case density_integral e c1 of Inl err \<Rightarrow> Inl err
           | Inr v \<Rightarrow> Inr \<bar>v - ng_target\<bar>))"

text \<open>The store of objects: an address is an index. \<open>deepcopy\<close> allocates a new object with
  the parameters of the given one.\<close>

type_synonym store = "HaloModel list"

definition deepcopy :: "store \<Rightarrow> nat \<Rightarrow> nat \<times> store" where
  "deepcopy st a = (length st, st @ [st ! a])"

definition find_m_min_sharp ::
  "env \<Rightarrow> real list \<Rightarrow> real list \<Rightarrow> real \<Rightarrow> error + real" where
  "find_m_min_sharp e ms integrand ng_target =
     (case dlnM ms of Inl err \<Rightarrow> Inl err
      | Inr dx \<Rightarrow>
          (let integral = cumtrapz (rev integrand) dx
           in if integral = [] then Inl IndexError
              else if last integral < ng_target then Inl (NGException (last integral))
              else
                (case first_index (\<lambda>v. ng_target < v) integral of
                   None \<Rightarrow> Inl IndexError
                 | Some ind \<Rightarrow>
                     (let m = window (tl (rev ms)) ind (length ms);
                          integral1 = window integral ind (length ms)
                      in case spline e (map ln integral1) (map ln m) 3 of
                           None \<Rightarrow> Inl LibraryError
                         | Some spline_int \<Rightarrow> Inr (ev spline_int (ln ng_target) / ln 10)))))"

definition find_m_min_smooth ::
  "env \<Rightarrow> HaloModel \<Rightarrow> real list \<Rightarrow> real list \<Rightarrow> real \<Rightarrow> (error + real) \<times> HaloModel" where
  "find_m_min_smooth e c ms integrand ng_target =
     (case dlnM ms of Inl err \<Rightarrow> (Inl err, c)
      | Inr dx \<Rightarrow>
          (let integral = simps_dx e integrand dx EvenAvg
           in if integral < ng_target then (Inl (NGException integral), c)
              else
                (case minimize e (model e c ng_target) 12 (1 / 1000) NelderMead 200 of
                   LibraryRaised \<Rightarrow> (Inl LibraryError, c)
                 | ObjectiveRaised x \<Rightarrow>
                     (case model e c ng_target x of
                        Inl err \<Rightarrow> (Inl err, snd (update_pre (m_min_kwargs x) c))
                      | Inr v \<Rightarrow> (Inl LibraryError, snd (update_pre (m_min_kwargs x) c)))
                 | Returns res \<Rightarrow>
                     (let c1 = (if res_trace res = [] then c
                                else snd (update_pre (m_min_kwargs (last (res_trace res))) c))
                      in case res_x res of
                           [] \<Rightarrow> (Inl IndexError, c1)
                         | x0 # xs \<Rightarrow> (Inr x0, c1)))))"

text \<open>The copy after line 395, \<open>c.update(hod_params={"M_min":8}, dlog10m=0.01)\<close> (lemma
  \<open>update_pre_solver\<close> below): the dictionary \<open>hod_params\<close> is replaced whole, so the copy
  keeps none of the caller's other occupation parameters.\<close>

definition solver_copy :: "HaloModel \<Rightarrow> HaloModel" where
  "solver_copy s = s\<lparr>hod_params := [''M_min'' \<mapsto> 8], ng := None, dlog10m := 1 / 100\<rparr>"

text \<open>
  \<open>_find_m_min\<close>: the result or the exception, and the store afterwards. The first line,
  \<open>self.power\<close>, only fills the cache of the caller. The call
  \<open>c.update(hod_params={"M_min":8}, dlog10m=0.01)\<close> passes \<open>M_min\<close> and no \<open>ng\<close>, so it is
  \<open>update_pre\<close> as well. The flag \<open>sharp_cut\<close> is read from the caller's occupation model.
\<close>

definition find_m_min :: "env \<Rightarrow> store \<Rightarrow> nat \<Rightarrow> real \<Rightarrow> (error + real) \<times> store" where
  "find_m_min e st self ng_target =
     (case deepcopy st self of
        (c, st1) \<Rightarrow>
          (case update_pre (no_kwargs\<lparr>kw_hod_params := Some [''M_min'' \<mapsto> 8],
                                      kw_dlog10m := Some (1 / 100)\<rparr>) (st1 ! c) of
             (Some err, cv) \<Rightarrow> (Inl err, st1[c := cv])
           | (None, cv) \<Rightarrow>
               (case M e cv of
                  Inl err \<Rightarrow> (Inl err, st1[c := cv])
                | Inr ms \<Rightarrow>
                    (if hod_sharp_cut e (hod_params (st1 ! self))
                     then (find_m_min_sharp e ms (gal_integrand e cv ms) ng_target,
                           st1[c := cv])
                     else (case find_m_min_smooth e cv ms (gal_integrand e cv ms) ng_target of
                             (res, cv1) \<Rightarrow> (res, st1[c := cv1]))))))"


section \<open>The projected correlation function\<close>

text \<open>The closed form of \<open>_get_slope_frac\<close>. The caller passes \<open>a \<ge> 1.3\<close>, where the base
  \<open>(1 + q) / (a - 1)\<close> of the second power is positive.\<close>

definition get_slope_frac :: "real \<Rightarrow> real" where
  "get_slope_frac a =
     (let q = sqrt (5 - 8 * a + 4 * a ^ 2);
          frac = 2 powr (1 + 2 * a)
                 * (7 - 2 * a ^ 3 + 3 * q + a ^ 2 * (9 + q) - a * (13 + 3 * q))
                 * ((1 + q) / (a - 1)) powr (- 2 * a)
      in frac / ((a - 1) ^ 2 * (- 1 + 2 * a + q)))"

definition slope_a :: "fit \<Rightarrow> real \<Rightarrow> error + real" where
  "slope_a f rp =
     (let ds = derivatives f (ln rp)
      in if length ds < 2 then Inl IndexError else Inr (max (13 / 10) (- (ds ! 1))))"

definition min_y :: "real \<Rightarrow> real \<Rightarrow> real" where
  "min_y a rp = get_slope_frac a * (5 / 1000) ^ 2 * rp"

definition y_grid :: "real \<Rightarrow> real \<Rightarrow> real list" where
  "y_grid a rp = logspace (log 10 (min_y a rp)) (log 10 (max 80 (5 * rp) - rp)) 1000"

definition proj_integrand :: "fit \<Rightarrow> real \<Rightarrow> real list \<Rightarrow> real list" where
  "proj_integrand f rp ys =
     map (\<lambda>y. exp (ev f (ln (y + rp))) * (y + rp) / sqrt ((y + 2 * rp) * y)) ys"

definition proj_at :: "env \<Rightarrow> fit \<Rightarrow> real \<Rightarrow> error + real" where
  "proj_at e f rp =
     (case slope_a f rp of Inl err \<Rightarrow> Inl err
      | Inr a \<Rightarrow> Inr (simps_x e (proj_integrand f rp (y_grid a rp)) (y_grid a rp) * 2))"

fun map_err :: "('a \<Rightarrow> error + 'b) \<Rightarrow> 'a list \<Rightarrow> error + 'b list" where
  "map_err f [] = Inr []"
| "map_err f (x # xs) =
     (case f x of Inl err \<Rightarrow> Inl err
      | Inr y \<Rightarrow> (case map_err f xs of Inl err \<Rightarrow> Inl err | Inr ys \<Rightarrow> Inr (y # ys)))"

definition projected_corr_gal :: "env \<Rightarrow> store \<Rightarrow> nat \<Rightarrow> (error + real list) \<times> store" where
  "projected_corr_gal e st self =
     (case corr_gal e (st ! self) of
        Inl err \<Rightarrow> (Inl err, st)
      | Inr cg \<Rightarrow>
          (if length cg \<noteq> length (r (st ! self)) then (Inl IndexError, st)
           else
             (let pos = filter (\<lambda>(x, c). 0 < c) (zip (r (st ! self)) cg)
              in case spline e (map (\<lambda>(x, c). ln x) pos) (map (\<lambda>(x, c). ln c) pos) 3 of
                   None \<Rightarrow> (Inl LibraryError, st)
                 | Some f \<Rightarrow> (map_err (proj_at e f) (r (st ! self)), st))))"

section \<open>Notions of the specification\<close>




text \<open>The window of the specification's words: four points on each side of the index,
  clipped to the bounds.\<close>

definition window_spec :: "'a list \<Rightarrow> nat \<Rightarrow> 'a list" where
  "window_spec xs ind = py_slice xs (max (int ind - 4) 0) (min (int ind + 4 + 1) (int (length xs)))"

section \<open>A small environment\<close>

text \<open>Simpson's rule as scipy applies it to samples at a constant spacing: on an even
  number of samples the last (or first) interval is a trapezoid, or the two are averaged.\<close>

fun simpson_pairs :: "real list \<Rightarrow> real" where
  "simpson_pairs (a # b # c # rest) = (a + 4 * b + c) + simpson_pairs (c # rest)"
| "simpson_pairs xs = 0"

definition simpson_rule :: "real list \<Rightarrow> real \<Rightarrow> even_mode \<Rightarrow> real" where
  "simpson_rule ys dx mode =
     (if odd (length ys) then dx / 3 * simpson_pairs ys
      else (let first = dx / 3 * simpson_pairs (butlast ys)
                          + dx * (last (butlast ys) + last ys) / 2;
                lst = dx / 3 * simpson_pairs (tl ys) + dx * (ys ! 0 + ys ! 1) / 2
            in case mode of EvenFirst \<Rightarrow> first | EvenLast \<Rightarrow> lst
               | EvenAvg \<Rightarrow> (first + lst) / 2))"

fun trapz_x :: "real list \<Rightarrow> real list \<Rightarrow> real" where
  "trapz_x (y0 # y1 # ys) (x0 # x1 # xs) =
     (x1 - x0) * (y0 + y1) / 2 + trapz_x (y1 # ys) (x1 # xs)"
| "trapz_x ys xs = 0"

text \<open>An occupation model with a sharp cutoff whose grid starts 9.9 decades above
  \<open>M_min\<close>, a mass function that makes the integrand constant, kernels that return ones,
  a fit that is a line of slope \<open>-2\<close> through the first point, and a minimiser that
  evaluates the objective at the initial guess, gives up and returns it.\<close>

definition sample_env :: env where
  "sample_env =
     \<lparr>hod_mmin = (\<lambda>h. case h ''M_min'' of None \<Rightarrow> 179 / 10 | Some m \<Rightarrow> m + 99 / 10),
      hod_ns = (\<lambda>h m. 1), hod_nc = (\<lambda>h m. 1), hod_ntot = (\<lambda>h m. 2),
      hod_sharp_cut = (\<lambda>h. True),
      dndm_at = (\<lambda>m. 50 / (m * ln 10)),
      profile_has_lam = False,
      fort_corr_gal_1h = (\<lambda>rs ms dn nc ns. map (\<lambda>x. 1) rs),
      fort_corr_gal_1h_cs = (\<lambda>rs ms dn nc ns. map (\<lambda>x. 1) rs),
      fort_power_gal_1h_ss = (\<lambda>ms dn ns nc. [1]),
      power_to_corr_ogata = (\<lambda>p rs. map (\<lambda>x. 1) rs),
      thalo = (\<lambda>ex sdb ms nt dn rs d n. map (\<lambda>x. 1) rs),
      simps_dx = simpson_rule,
      simps_x = trapz_x,
      spline = (\<lambda>xs ys k. if length xs \<le> k then None
                 else Some \<lparr>ev = (\<lambda>x. ys ! 0 - 2 * (x - xs ! 0)),
                            derivatives = (\<lambda>x. [ys ! 0 - 2 * (x - xs ! 0), - 2, 0, 0])\<rparr>),
      minimize = (\<lambda>f x0 tol meth maxiter.
                    case f x0 of Inl err \<Rightarrow> ObjectiveRaised x0
                    | Inr v \<Rightarrow> Returns \<lparr>res_x = [x0], res_success = False, res_trace = [x0]\<rparr>)\<rparr>"


definition sample_model :: HaloModel where
  "sample_model =
     \<lparr>hod_params = [''M_min'' \<mapsto> 8], ng = None, dlog10m = 1 / 20, rmin = 1, rmax = exp 1,
      rnum = 4, nonlinear = True, scale_dependent_bias = True,
      halo_exclusion = PyStr ''None'', cm_relation = PyStr ''duffy'', nthreads_2halo = 0\<rparr>"

text \<open>The mass grid of the solver's copy in the small environment: ten masses from
  \<open>10 ^ 17.9\<close> in steps of \<open>0.01\<close> decades.\<close>

definition sample_grid :: "real list" where
  "sample_grid =
     [10 powr (179 / 10), 10 powr (1791 / 100), 10 powr (448 / 25), 10 powr (1793 / 100),
      10 powr (897 / 50), 10 powr (359 / 20), 10 powr (449 / 25), 10 powr (1797 / 100),
      10 powr (899 / 50), 10 powr (1799 / 100)]"






section \<open>Basic facts\<close>

lemma update_pre_solver:
  "update_pre (no_kwargs\<lparr>kw_hod_params := Some [''M_min'' \<mapsto> 8], kw_dlog10m := Some (1 / 100)\<rparr>) s
     = (None, solver_copy s)"
  by (simp add: update_pre_def update_ng_def super_update_def no_kwargs_def set_opt_def solver_copy_def)



lemma cumsum_from_length [simp]: "length (cumsum_from a xs) = length xs"
  by (induction xs arbitrary: a) auto

lemma cumsum_from_Nil [simp]: "(cumsum_from a xs = []) = (xs = [])"
  by (cases xs) auto


lemma cumtrapz_length: "length (cumtrapz ys dx) = length ys - 1"
  by (simp add: cumtrapz_def)




lemma find_m_min_store:
  assumes "self < length st"
  shows "\<exists>cv. snd (find_m_min e st self g) = st @ [cv]"
  by (simp add: find_m_min_def deepcopy_def update_pre_solver split: sum.splits prod.splits)

lemma find_m_min_frame:
  assumes "self < length st"
  shows "snd (find_m_min e st self g) ! self = st ! self"
proof -
  obtain cv where "snd (find_m_min e st self g) = st @ [cv]"
    using find_m_min_store [OF assms] by blast
  then show ?thesis using assms by (simp add: nth_append)
qed

lemma find_m_min_sharp_eq:
  assumes "self < length st" and "hod_sharp_cut e (hod_params (st ! self))"
    and "M e (solver_copy (st ! self)) = Inr ms"
  shows "fst (find_m_min e st self g)
         = find_m_min_sharp e ms (gal_integrand e (solver_copy (st ! self)) ms) g"
  using assms by (simp add: find_m_min_def deepcopy_def update_pre_solver nth_append)




lemma py_slice_nth:
  "py_slice xs (int lo) (int hi) = map (nth xs) [lo ..< min hi (length xs)]"
proof (rule nth_equalityI)
  show "length (py_slice xs (int lo) (int hi)) = length (map (nth xs) [lo ..< min hi (length xs)])"
    by (auto simp: py_slice_def)
next
  fix i assume "i < length (py_slice xs (int lo) (int hi))"
  then have "i < hi - lo" "i < length xs - lo" by (auto simp: py_slice_def)
  then have lt: "lo + i < min hi (length xs)" by linarith
  then have il: "i < length [lo ..< min hi (length xs)]" unfolding length_upt by arith
  have rhs: "map (nth xs) [lo ..< min hi (length xs)] ! i = xs ! (lo + i)"
    by (simp only: nth_map [OF il] nth_upt [OF lt])
  have lhs: "py_slice xs (int lo) (int hi) ! i = xs ! (lo + i)"
    using \<open>i < hi - lo\<close> lt by (simp add: py_slice_def)
  show "py_slice xs (int lo) (int hi) ! i = map (nth xs) [lo ..< min hi (length xs)] ! i"
    unfolding lhs rhs ..
qed

lemma window_nth:
  "window xs ind n = map (nth xs) [ind - 4 ..< min (ind + 4) (min n (length xs))]"
proof -
  have a: "max (int ind - 4) 0 = int (ind - 4)" by simp
  have b: "min (int ind + 4) (int n) = int (min (ind + 4) n)" by simp
  show ?thesis unfolding window_def a b py_slice_nth by (simp add: min.assoc)
qed

lemma first_index_Some:
  assumes "first_index P xs = Some i"
  shows "i < length xs \<and> P (xs ! i) \<and> (\<forall>j < i. \<not> P (xs ! j))"
proof -
  have ex: "\<exists>x \<in> set xs. P x" and i: "i = length (takeWhile (\<lambda>x. \<not> P x) xs)"
    using assms by (auto simp: first_index_def list_ex_iff split: if_splits)
  have "takeWhile (\<lambda>x. \<not> P x) xs \<noteq> xs"
    using ex by (simp add: takeWhile_eq_all_conv)
  then have "length (takeWhile (\<lambda>x. \<not> P x) xs) \<noteq> length xs"
    by (metis takeWhile_eq_take take_all_iff order_refl)
  then have lt: "i < length xs"
    unfolding i using length_takeWhile_le [of "\<lambda>x. \<not> P x" xs] by simp
  have "P (xs ! i)"
    using nth_length_takeWhile [of "\<lambda>x. \<not> P x" xs] lt unfolding i by simp
  moreover have "\<not> P (xs ! j)" if "j < i" for j
  proof -
    have "takeWhile (\<lambda>x. \<not> P x) xs ! j \<in> set (takeWhile (\<lambda>x. \<not> P x) xs)"
      using that unfolding i by simp
    then show ?thesis
      using that takeWhile_nth [of j "\<lambda>x. \<not> P x" xs] set_takeWhileD unfolding i by fastforce
  qed
  ultimately show ?thesis using lt by simp
qed

lemma first_index_last:
  assumes "xs \<noteq> []" and "P (last xs)"
  shows "\<exists>i. first_index P xs = Some i"
  using assms by (auto simp: first_index_def list_ex_iff)

lemma upt_0_2: "[0..<2] = [0, 1]"
  by code_simp

lemma upt_0_4: "[0..<4] = [0, 1, 2, 3]"
  by code_simp

lemma sample_ng: "ng sample_model = None"
  by (simp add: sample_model_def)

lemma sample_M:
  "M sample_env (sample_model\<lparr>ng := x\<rparr>) = Inr [10 powr (179 / 10), 10 powr (359 / 20)]"
  by (simp add: M_def sample_env_def sample_model_def arange_def upt_0_2)

lemma sample_r: "r (sample_model\<lparr>ng := x\<rparr>) = [1, exp (1 / 3), exp (2 / 3), exp 1]"
  by (simp add: r_def rlog_def linspace_def sample_model_def upt_0_4)

lemma sample_mean_gal_den: "mean_gal_den sample_env (sample_model\<lparr>ng := None\<rparr>) = Inr 5"
  by (simp add: mean_gal_den_def sample_M dlnM_def gal_integrand_def)
     (simp add: sample_env_def sample_model_def simpson_rule_def)

lemma sample_1h:
  "corr_gal_1h sample_env (sample_model\<lparr>ng := Some 3\<rparr>) = Inr [10 / 9, 10 / 9, 10 / 9, 10 / 9]"
  by (simp add: corr_gal_1h_def corr_gal_1h_cs_def corr_gal_1h_ss_def power_gal_1h_ss_def
      sample_M mean_gal_den_def arr_div_sq_def np_add_def sample_r)
     (simp add: sample_env_def)

lemma sample_2h: "corr_gal_2h sample_env (sample_model\<lparr>ng := Some 3\<rparr>) = Inr [1, 1, 1, 1]"
  by (simp add: corr_gal_2h_def sample_M mean_gal_den_def sample_r)
     (simp add: sample_env_def)

lemma upt_0_10: "[0..<10] = [0, 1, 2, 3, 4, 5, 6, 7, 8, 9]"
  by code_simp

lemma sample_grid_M: "M sample_env (solver_copy sample_model) = Inr sample_grid"
  by (simp add: M_def sample_env_def sample_model_def solver_copy_def arange_def upt_0_10
      sample_grid_def)


lemma sample_grid_length: "length sample_grid = 10"
  by (simp add: sample_grid_def)

lemma sample_dx: "ln (sample_grid ! 1) - ln (sample_grid ! 0) = ln 10 / 100"
  by (simp add: sample_grid_def)

lemma sample_integrand:
  "gal_integrand sample_env c sample_grid =
     [100 / ln 10, 100 / ln 10, 100 / ln 10, 100 / ln 10, 100 / ln 10,
      100 / ln 10, 100 / ln 10, 100 / ln 10, 100 / ln 10, 100 / ln 10]"
  by (simp add: gal_integrand_def sample_env_def sample_grid_def)

lemma sample_cumtrapz:
  "cumtrapz (rev (gal_integrand sample_env c sample_grid)) (ln 10 / 100) = [1, 2, 3, 4, 5, 6, 7, 8, 9]"
  by (simp add: sample_integrand cumtrapz_def)



lemma sample_first_index: "first_index (\<lambda>v. 9 / 2 < v) [1, 2, 3, 4, 5, 6, 7, 8, 9 :: real] = Some 4"
  by (simp add: first_index_def)

lemma sample_window:
  "window [1, 2, 3, 4, 5, 6, 7, 8, 9 :: real] 4 10 = [1, 2, 3, 4, 5, 6, 7, 8]"
  by (simp add: window_def py_slice_def)

lemma sample_window_spec:
  "window_spec [1, 2, 3, 4, 5, 6, 7, 8, 9 :: real] 4 = [1, 2, 3, 4, 5, 6, 7, 8, 9]"
  by (simp add: window_spec_def py_slice_def)

lemma sample_sharp: "hod_sharp_cut sample_env h"
  by (simp add: sample_env_def)


lemma cumtrapz_gal_length:
  "length (cumtrapz (rev (gal_integrand e c ms)) dx) = length ms - 1"
  by (simp add: cumtrapz_length gal_integrand_def)

lemma projected_store: "snd (projected_corr_gal e st self) = st"
  by (simp add: projected_corr_gal_def Let_def split: sum.splits option.splits)

lemma sample_I:
  "cumtrapz (rev (gal_integrand sample_env (solver_copy ([sample_model] ! 0)) sample_grid))
     (ln (sample_grid ! 1) - ln (sample_grid ! 0)) = [1, 2, 3, 4, 5, 6, 7, 8, 9]"
  unfolding sample_dx by (rule sample_cumtrapz)

lemma sample_spline_some:
  "length xs = 8 \<Longrightarrow> \<exists>f. spline sample_env xs ys 3 = Some f"
  by (simp add: sample_env_def)

lemma sharp_solver_core:
  assumes "self < length st" and "hod_sharp_cut e (hod_params (st ! self))"
    and "M e (solver_copy (st ! self)) = Inr ms" and "2 \<le> length ms"
    and "integral = cumtrapz (rev (gal_integrand e (solver_copy (st ! self)) ms))
                      (ln (ms ! 1) - ln (ms ! 0))"
    and "g < last integral"
  shows "\<exists>ind. first_index (\<lambda>v. g < v) integral = Some ind \<and>
           ind < length integral \<and> g < integral ! ind \<and> (\<forall>j < ind. \<not> g < integral ! j) \<and>
           length integral = length ms - 1 \<and>
           window integral ind (length ms)
             = map (nth integral) [ind - 4 ..< min (ind + 4) (length integral)] \<and>
           window (tl (rev ms)) ind (length ms)
             = map (nth (tl (rev ms))) [ind - 4 ..< min (ind + 4) (length integral)] \<and>
           fst (find_m_min e st self g)
             = (case spline e (map ln (window integral ind (length ms)))
                       (map ln (window (tl (rev ms)) ind (length ms))) 3 of
                  None \<Rightarrow> Inl LibraryError
                | Some f \<Rightarrow> Inr (ev f (ln g) / ln 10))"
proof -
  have len: "length integral = length ms - 1"
    unfolding assms(5) by (rule cumtrapz_gal_length)
  then have ne: "integral \<noteq> []" using assms(4) by auto
  obtain ind where ind: "first_index (\<lambda>v. g < v) integral = Some ind"
    using first_index_last [OF ne, of "\<lambda>v. g < v"] assms(6) by blast
  note props = first_index_Some [OF ind]
  have w1: "window integral ind (length ms)
              = map (nth integral) [ind - 4 ..< min (ind + 4) (length integral)]"
    unfolding window_nth len by (simp add: min_def)
  have w2: "window (tl (rev ms)) ind (length ms)
              = map (nth (tl (rev ms))) [ind - 4 ..< min (ind + 4) (length integral)]"
    unfolding window_nth len by (simp add: min_def)
  have res: "fst (find_m_min e st self g)
             = (case spline e (map ln (window integral ind (length ms)))
                       (map ln (window (tl (rev ms)) ind (length ms))) 3 of
                  None \<Rightarrow> Inl LibraryError
                | Some f \<Rightarrow> Inr (ev f (ln g) / ln 10))"
  proof -
    have I: "cumtrapz (rev (gal_integrand e (solver_copy (st ! self)) ms))
               (ln (ms ! Suc 0) - ln (ms ! 0)) = integral"
      using assms(5) by simp
    show ?thesis
      unfolding find_m_min_sharp_eq [OF assms(1,2,3)] find_m_min_sharp_def
      using assms(4,6) ne ind by (simp add: dlnM_def I Let_def)
  qed
  show ?thesis
    using ind props len w1 w2 res by blast
qed















lemma map_err_Inr:
  "map_err f xs = Inr ys \<Longrightarrow> length ys = length xs \<and> (\<forall>i < length xs. f (xs ! i) = Inr (ys ! i))"
proof (induction xs arbitrary: ys)
  case Nil
  then show ?case by simp
next
  case (Cons x xs)
  then obtain y ys' where y: "f x = Inr y" and ys': "map_err f xs = Inr ys'" and eq: "ys = y # ys'"
    by (auto split: sum.splits)
  show ?case
    using Cons.IH [OF ys'] y eq by (auto simp: nth_Cons split: nat.splits)
qed

lemma map_err_total:
  "(\<And>x. \<exists>y. f x = Inr y) \<Longrightarrow> \<exists>ys. map_err f xs = Inr ys"
proof (induction xs)
  case Nil
  then show ?case by simp
next
  case (Cons x xs)
  then obtain ys where "map_err f xs = Inr ys" by blast
  moreover obtain y where "f x = Inr y" using Cons.prems by blast
  ultimately show ?case by simp
qed

lemma linspace_length: "length (linspace a b n) = n"
  by (simp add: linspace_def)

lemma linspace_nth:
  "1 < n \<Longrightarrow> k < n \<Longrightarrow> linspace a b n ! k = a + real k * ((b - a) / real (n - 1))"
  by (simp add: linspace_def)

lemma y_grid_length: "length (y_grid a rp) = 1000"
  by (simp add: y_grid_def logspace_def linspace_length)

lemma y_grid_nth:
  assumes "k < 1000"
  shows "y_grid a rp ! k =
           10 powr (log 10 (min_y a rp)
                    + real k * ((log 10 (max 80 (5 * rp) - rp) - log 10 (min_y a rp)) / 999))"
  using assms by (simp add: y_grid_def logspace_def linspace_length linspace_nth)

lemma upper_positive: "0 < max 80 (5 * rp) - (rp :: real)"
  by (cases "rp \<le> 0") (auto simp: max_def)

lemma y_grid_first: "0 < min_y a rp \<Longrightarrow> y_grid a rp ! 0 = min_y a rp"
  by (simp add: y_grid_nth)

lemma lin_end: "(lo :: real) + real 999 * ((hi - lo) / 999) = hi"
  by (simp add: field_simps)

lemma y_grid_last: "last (y_grid a rp) = max 80 (5 * rp) - rp"
proof -
  have ne: "y_grid a rp \<noteq> []" using y_grid_length [of a rp] by auto
  have e: "log 10 (min_y a rp)
             + real 999 * ((log 10 (max 80 (5 * rp) - rp) - log 10 (min_y a rp)) / 999)
           = log 10 (max 80 (5 * rp) - rp)"
    by (rule lin_end)
  have "last (y_grid a rp) = y_grid a rp ! 999"
    using last_conv_nth [OF ne] by (simp add: y_grid_length)
  also have "\<dots> = 10 powr (log 10 (min_y a rp)
                 + real 999 * ((log 10 (max 80 (5 * rp) - rp) - log 10 (min_y a rp)) / 999))"
    by (rule y_grid_nth) simp
  also have "\<dots> = 10 powr (log 10 (max 80 (5 * rp) - rp))"
    by (simp only: e)
  also have "\<dots> = max 80 (5 * rp) - rp"
    using upper_positive [of rp] by simp
  finally show ?thesis .
qed

lemma slope_a_Inr:
  "slope_a f rp = Inr a \<Longrightarrow> a = max (13 / 10) (- (derivatives f (ln rp) ! 1)) \<and> 13 / 10 \<le> a"
  by (auto simp: slope_a_def Let_def split: if_splits)

lemma sample_corr_gal:
  "corr_gal sample_env (sample_model\<lparr>ng := Some 3\<rparr>) = Inr [19 / 9, 19 / 9, 19 / 9, 19 / 9]"
  by (simp add: corr_gal_def sample_1h sample_2h np_add_def)

lemma sample_spline_slope:
  "spline sample_env xs ys k = Some f \<Longrightarrow> derivatives f x ! 1 = - 2 \<and> length (derivatives f x) = 4"
  by (auto simp: sample_env_def split: if_splits)

lemma sample_proj_at: "\<exists>y. proj_at sample_env f rp = Inr y" if "spline sample_env xs ys k = Some f"
  using sample_spline_slope [OF that, of "ln rp"] by (simp add: proj_at_def slope_a_def Let_def)

lemma sample_projection_returns:
  "\<exists>p. fst (projected_corr_gal sample_env [sample_model\<lparr>ng := Some 3\<rparr>] 0) = Inr p"
proof -
  let ?pos = "filter (\<lambda>(x, c). 0 < c)
                (zip (r (sample_model\<lparr>ng := Some 3\<rparr>)) [19 / 9, 19 / 9, 19 / 9, 19 / 9 :: real])"
  have "length ?pos = 4" by (simp add: sample_r)
  then obtain f where f: "spline sample_env (map (\<lambda>(x, c). ln x) ?pos) (map (\<lambda>(x, c). ln c) ?pos) 3 = Some f"
    by (simp add: sample_env_def)
  obtain ys where "map_err (proj_at sample_env f) (r (sample_model\<lparr>ng := Some 3\<rparr>)) = Inr ys"
    using map_err_total [of "proj_at sample_env f"] sample_proj_at [OF f] by blast
  then show ?thesis
    using f by (simp add: projected_corr_gal_def sample_corr_gal Let_def) (simp add: sample_r)
qed
























lemma quad_pos: "0 < a ^ 2 - 3 * a + (3 :: real)"
proof -
  have "a ^ 2 - 3 * a + 3 = (a - 3 / 2) ^ 2 + 3 / 4"
    by (simp add: power2_eq_square algebra_simps)
  moreover have "0 \<le> (a - 3 / 2) ^ 2" by simp
  ultimately show ?thesis by linarith
qed

lemma slope_root:
  assumes "1 < (a :: real)"
  shows "2 * a - 2 < sqrt (5 - 8 * a + 4 * a ^ 2)"
proof -
  have "(2 * a - 2) ^ 2 < 5 - 8 * a + 4 * a ^ 2"
    by (simp add: power2_eq_square algebra_simps)
  then show ?thesis by (rule real_less_rsqrt)
qed

lemma slope_poly_pos:
  assumes "1 < (a :: real)" and "q = sqrt (5 - 8 * a + 4 * a ^ 2)"
  shows "0 < 7 - 2 * a ^ 3 + 3 * q + a ^ 2 * (9 + q) - a * (13 + 3 * q)"
proof -
  have q: "2 * a - 2 < q" using slope_root [OF assms(1)] assms(2) by simp
  have "(2 * a - 2) * (a ^ 2 - 3 * a + 3) < q * (a ^ 2 - 3 * a + 3)"
    using q quad_pos [of a] by (rule mult_strict_right_mono)
  moreover have "7 - 2 * a ^ 3 + 3 * q + a ^ 2 * (9 + q) - a * (13 + 3 * q)
                 = (7 - 13 * a + 9 * a ^ 2 - 2 * a ^ 3) + q * (a ^ 2 - 3 * a + 3)"
    by (simp add: algebra_simps)
  moreover have "(7 - 13 * a + 9 * a ^ 2 - 2 * a ^ 3) + (2 * a - 2) * (a ^ 2 - 3 * a + 3)
                 = (a - 1 / 2) ^ 2 + 3 / 4"
    by (simp add: power2_eq_square power3_eq_cube algebra_simps)
  moreover have "0 \<le> (a - 1 / 2) ^ 2" by simp
  ultimately show ?thesis by linarith
qed

lemma get_slope_frac_pos:
  assumes "1 < a"
  shows "0 < get_slope_frac a"
proof -
  define q where "q = sqrt (5 - 8 * a + 4 * a ^ 2)"
  have q: "2 * a - 2 < q" using slope_root [OF assms] by (simp add: q_def)
  have p: "0 < 7 - 2 * a ^ 3 + 3 * q + a ^ 2 * (9 + q) - a * (13 + 3 * q)"
    using slope_poly_pos [OF assms q_def] .
  have b: "0 < ((1 + q) / (a - 1)) powr (- 2 * a)"
    using q assms by simp
  have t: "0 < (2 :: real) powr (1 + 2 * a)" by simp
  have d: "0 < (a - 1) ^ 2 * (- 1 + 2 * a + q)"
    using q assms by simp
  have n: "0 < 2 powr (1 + 2 * a)
             * (7 - 2 * a ^ 3 + 3 * q + a ^ 2 * (9 + q) - a * (13 + 3 * q))
             * ((1 + q) / (a - 1)) powr (- 2 * a)"
    using t p b by simp
  have "0 < 2 powr (1 + 2 * a)
             * (7 - 2 * a ^ 3 + 3 * q + a ^ 2 * (9 + q) - a * (13 + 3 * q))
             * ((1 + q) / (a - 1)) powr (- 2 * a) / ((a - 1) ^ 2 * (- 1 + 2 * a + q))"
    using n d by (rule divide_pos_pos)
  then show ?thesis
    unfolding get_slope_frac_def Let_def q_def .
qed

lemma r_positive: "i < length (r s) \<Longrightarrow> 0 < r s ! i"
  by (simp add: r_def rlog_def)

lemma min_y_pos: "1 < a \<Longrightarrow> 0 < rp \<Longrightarrow> 0 < min_y a rp"
  using get_slope_frac_pos [of a] by (simp add: min_y_def)

lemma get_slope_frac_eq:
  "q = sqrt (5 - 8 * a + 4 * a ^ 2) \<Longrightarrow>
   get_slope_frac a =
     2 powr (1 + 2 * a) * (7 - 2 * a ^ 3 + 3 * q + a ^ 2 * (9 + q) - a * (13 + 3 * q))
       * ((1 + q) / (a - 1)) powr (- 2 * a) / ((a - 1) ^ 2 * (- 1 + 2 * a + q))"
  unfolding get_slope_frac_def Let_def by (rule arg_cong2 [where f = "(/)"]) simp_all

lemma projection_core:
  assumes "fst (projected_corr_gal e st self) = Inr p" and "i < length (r (st ! self))"
    and "rp = r (st ! self) ! i"
  shows "\<exists>cg f a q frac ymin ys.
           corr_gal e (st ! self) = Inr cg \<and>
           spline e (map (\<lambda>(x, c). ln x) (filter (\<lambda>(x, c). 0 < c) (zip (r (st ! self)) cg)))
                    (map (\<lambda>(x, c). ln c) (filter (\<lambda>(x, c). 0 < c) (zip (r (st ! self)) cg))) 3
             = Some f \<and>
           a = max (13 / 10) (- (derivatives f (ln rp) ! 1)) \<and> 13 / 10 \<le> a \<and>
           q = sqrt (5 - 8 * a + 4 * a ^ 2) \<and>
           frac = 2 powr (1 + 2 * a)
                    * (7 - 2 * a ^ 3 + 3 * q + a ^ 2 * (9 + q) - a * (13 + 3 * q))
                    * ((1 + q) / (a - 1)) powr (- 2 * a)
                  / ((a - 1) ^ 2 * (- 1 + 2 * a + q)) \<and>
           ymin = frac * (5 / 1000) ^ 2 * rp \<and> 0 < ymin \<and>
           length ys = 1000 \<and>
           (\<forall>k < 1000. ys ! k =
              10 powr (log 10 ymin
                       + real k * ((log 10 (max 80 (5 * rp) - rp) - log 10 ymin) / 999))) \<and>
           ys ! 0 = ymin \<and>
           last ys = max 80 (5 * rp) - rp \<and>
           length p = length (r (st ! self)) \<and>
           p ! i = 2 * simps_x e
                     (map (\<lambda>y. exp (ev f (ln (y + rp))) * (y + rp) / sqrt ((y + 2 * rp) * y)) ys)
                     ys"
proof -
  obtain cg where cg: "corr_gal e (st ! self) = Inr cg"
    using assms(1) by (cases "corr_gal e (st ! self)") (auto simp: projected_corr_gal_def)
  let ?pos = "filter (\<lambda>(x, c). 0 < c) (zip (r (st ! self)) cg)"
  obtain f where f: "spline e (map (\<lambda>(x, c). ln x) ?pos) (map (\<lambda>(x, c). ln c) ?pos) 3 = Some f"
    using assms(1) cg
    by (cases "spline e (map (\<lambda>(x, c). ln x) ?pos) (map (\<lambda>(x, c). ln c) ?pos) 3")
       (auto simp: projected_corr_gal_def Let_def split: if_splits)
  have m: "map_err (proj_at e f) (r (st ! self)) = Inr p"
    using assms(1) cg f by (auto simp: projected_corr_gal_def Let_def split: if_splits)
  have lp: "length p = length (r (st ! self))" and pi: "proj_at e f rp = Inr (p ! i)"
    using map_err_Inr [OF m] assms(2,3) by auto
  obtain a where a: "slope_a f rp = Inr a"
    and v: "p ! i = simps_x e (proj_integrand f rp (y_grid a rp)) (y_grid a rp) * 2"
    using pi by (auto simp: proj_at_def split: sum.splits)
  have a1: "a = max (13 / 10) (- (derivatives f (ln rp) ! 1))" and a2: "13 / 10 \<le> a"
    using slope_a_Inr [OF a] by simp_all
  have rp: "0 < rp" using r_positive [OF assms(2)] assms(3) by simp
  define q where "q = sqrt (5 - 8 * a + 4 * a ^ 2)"
  define frac where "frac = 2 powr (1 + 2 * a)
                    * (7 - 2 * a ^ 3 + 3 * q + a ^ 2 * (9 + q) - a * (13 + 3 * q))
                    * ((1 + q) / (a - 1)) powr (- 2 * a)
                  / ((a - 1) ^ 2 * (- 1 + 2 * a + q))"
  have fr: "get_slope_frac a = frac"
    unfolding frac_def by (rule get_slope_frac_eq) (rule q_def)
  have my: "min_y a rp = frac * (5 / 1000) ^ 2 * rp"
    unfolding min_y_def fr ..
  have pos: "0 < min_y a rp"
    using a2 rp by (intro min_y_pos) simp_all
  have nth: "\<forall>k < 1000. y_grid a rp ! k =
              10 powr (log 10 (min_y a rp)
                       + real k * ((log 10 (max 80 (5 * rp) - rp) - log 10 (min_y a rp)) / 999))"
    using y_grid_nth [of _ a rp] by blast
  have v': "p ! i = 2 * simps_x e
                     (map (\<lambda>y. exp (ev f (ln (y + rp))) * (y + rp) / sqrt ((y + 2 * rp) * y))
                        (y_grid a rp))
                     (y_grid a rp)"
    using v by (simp add: proj_integrand_def)
  show ?thesis
    apply (rule exI [of _ cg], rule exI [of _ f], rule exI [of _ a], rule exI [of _ q],
        rule exI [of _ frac], rule exI [of _ "min_y a rp"], rule exI [of _ "y_grid a rp"])
    apply (intro conjI cg f a1 a2 q_def frac_def my pos y_grid_length nth
        y_grid_first [OF pos] y_grid_last lp v')
    done
qed

section \<open>The correlation function is the sum of its two terms\<close>

text \<open>
  Claim C1. Where the one-halo and the two-halo term evaluate to arrays on the radius
  grid, \<open>corr_gal\<close> evaluates too, to an array on the same grid whose value at every
  radius is the sum of the values of the two terms there.
\<close>

theorem corr_gal_is_sum:
  assumes "corr_gal_1h e s = Inr c1" and "corr_gal_2h e s = Inr c2"
    and "length c1 = length (r s)" and "length c2 = length (r s)"
  shows "\<exists>c. corr_gal e s = Inr c \<and> length c = length (r s) \<and>
             (\<forall>i < length (r s). c ! i = c1 ! i + c2 ! i)"
  using assms by (simp add: corr_gal_def np_add_def)

theorem corr_gal_is_sum_witness:
  "corr_gal_1h sample_env (sample_model\<lparr>ng := Some 3\<rparr>) = Inr [10 / 9, 10 / 9, 10 / 9, 10 / 9] \<and>
   corr_gal_2h sample_env (sample_model\<lparr>ng := Some 3\<rparr>) = Inr [1, 1, 1, 1] \<and>
   r (sample_model\<lparr>ng := Some 3\<rparr>) = [1, exp (1 / 3), exp (2 / 3), exp 1] \<and>
   corr_gal sample_env (sample_model\<lparr>ng := Some 3\<rparr>) = Inr [19 / 9, 19 / 9, 19 / 9, 19 / 9]"
proof -
  obtain c where c: "corr_gal sample_env (sample_model\<lparr>ng := Some 3\<rparr>) = Inr c"
    "length c = 4" "\<forall>i < 4. c ! i = [10 / 9, 10 / 9, 10 / 9, 10 / 9] ! i + [1, 1, 1, 1] ! i"
    using corr_gal_is_sum [OF sample_1h sample_2h] by (auto simp: sample_r)
  have "c ! 0 = 19 / 9" "c ! 1 = 19 / 9" "c ! 2 = 19 / 9" "c ! 3 = 19 / 9"
    using c(3) by auto
  then have "c = [19 / 9, 19 / 9, 19 / 9, 19 / 9]"
    using c(2) by (auto simp: list_eq_iff_nth_eq less_Suc_eq numeral_eq_Suc)
  with c(1) show ?thesis by (simp add: sample_1h sample_2h sample_r)
qed

section \<open>Setters reject invalid values\<close>

text \<open>
  Claim C8, amended. The setter of \<open>halo_exclusion\<close> raises for every value that is
  neither \<open>None\<close> nor equal to one of the five modes. The setter of \<open>cm_relation\<close> raises
  for every byte string that is not one of the three relations; a value that is not a
  string (an object, an integer, \<open>None\<close>) is accepted as it is.
\<close>

theorem setters_reject_invalid:
  "(v \<noteq> PyNone \<and> \<not> py_in v available_halo_exclusion \<longrightarrow>
      set_halo_exclusion v = Inl ValueError) \<and>
   (\<not> py_in (PyStr n) available_cm_relation \<longrightarrow> set_cm_relation (PyStr n) = Inl ValueError) \<and>
   set_cm_relation (PyObj k) = Inr (PyObj k) \<and>
   set_cm_relation (PyInt i) = Inr (PyInt i) \<and>
   set_cm_relation PyNone = Inr PyNone"
  by (simp add: set_halo_exclusion_def set_cm_relation_def)

theorem setters_reject_invalid_witness:
  "PyStr ''cube'' \<noteq> PyNone \<and> \<not> py_in (PyStr ''cube'') available_halo_exclusion \<and>
   set_halo_exclusion (PyStr ''cube'') = Inl ValueError \<and>
   \<not> py_in (PyStr ''nfw'') available_cm_relation \<and>
   set_cm_relation (PyStr ''nfw'') = Inl ValueError \<and>
   set_cm_relation (PyObj 0) = Inr (PyObj 0)"
proof -
  have a: "\<not> py_in (PyStr ''cube'') available_halo_exclusion"
    by (simp add: py_in_def available_halo_exclusion_def)
  have b: "\<not> py_in (PyStr ''nfw'') available_cm_relation"
    by (simp add: py_in_def available_cm_relation_def)
  show ?thesis
    using setters_reject_invalid [of "PyStr ''cube''" "''nfw''" 0 0] a b by simp
qed

text \<open>The claim as stated fails: an object that is no relation of the list is accepted.\<close>

theorem cm_relation_object_counterexample:
  "\<not> py_in (PyObj 0) available_cm_relation \<and> set_cm_relation (PyObj 0) \<noteq> Inl ValueError"
  by (simp add: py_in_def available_cm_relation_def set_cm_relation_def)

section \<open>Galaxy fractions\<close>

text \<open>
  Claim C9. On a mass grid of at least two points and with a positive mean galaxy
  density, the central fraction and the satellite fraction are numbers and sum to one.
\<close>

theorem fractions_sum_to_one:
  assumes "M e s = Inr ms" and "2 \<le> length ms"
    and "mean_gal_den e s = Inr d" and "0 < d"
  shows "\<exists>c f. central_fraction e s = Inr c \<and> satellite_fraction e s = Inr f \<and> c + f = 1"
  using assms by (simp add: central_fraction_def satellite_fraction_def dlnM_def np_div_def)

theorem fractions_sum_to_one_witness:
  "M sample_env (sample_model\<lparr>ng := None\<rparr>) = Inr [10 powr (179 / 10), 10 powr (359 / 20)] \<and>
   mean_gal_den sample_env (sample_model\<lparr>ng := None\<rparr>) = Inr 5 \<and>
   (\<exists>c f. central_fraction sample_env (sample_model\<lparr>ng := None\<rparr>) = Inr c \<and>
          satellite_fraction sample_env (sample_model\<lparr>ng := None\<rparr>) = Inr f \<and> c + f = 1)"
  using fractions_sum_to_one [OF sample_M _ sample_mean_gal_den] sample_mean_gal_den sample_M
  by simp

section \<open>The mean galaxy density\<close>

text \<open>
  Claim C10. With \<open>ng\<close> set, \<open>mean_gal_den\<close> is \<open>ng\<close>, whatever the mass grid and the
  occupation are (also where the integral would raise). With \<open>ng\<close> unset it is the Simpson
  integral, with \<open>even="first"\<close>, of mass times abundance times total occupation over the
  mass grid, at the logarithmic spacing of the first two masses.
\<close>

theorem mean_gal_den_cases:
  "(ng s = Some v \<longrightarrow> mean_gal_den e s = Inr v) \<and>
   (ng s = None \<longrightarrow> M e s = Inr ms \<longrightarrow> 2 \<le> length ms \<longrightarrow>
      mean_gal_den e s =
        Inr (simps_dx e (map (\<lambda>m. m * dndm_at e m * hod_ntot e (hod_params s) m) ms)
               (ln (ms ! 1) - ln (ms ! 0)) EvenFirst))"
  by (simp add: mean_gal_den_def dlnM_def gal_integrand_def)

theorem mean_gal_den_cases_witness:
  "ng (sample_model\<lparr>ng := Some 3\<rparr>) = Some 3 \<and>
   mean_gal_den sample_env (sample_model\<lparr>ng := Some 3\<rparr>) = Inr 3 \<and>
   ng (sample_model\<lparr>ng := None\<rparr>) = None \<and>
   M sample_env (sample_model\<lparr>ng := None\<rparr>) = Inr [10 powr (179 / 10), 10 powr (359 / 20)] \<and>
   mean_gal_den sample_env (sample_model\<lparr>ng := None\<rparr>) = Inr 5"
proof -
  have d: "mean_gal_den sample_env (sample_model\<lparr>ng := None\<rparr>) = Inr 5"
    using mean_gal_den_cases [of "sample_model\<lparr>ng := None\<rparr>" 0 sample_env
        "[10 powr (179 / 10), 10 powr (359 / 20)]"] sample_M [of None]
    by (simp add: sample_env_def sample_model_def simpson_rule_def)
  show ?thesis
    using mean_gal_den_cases [of "sample_model\<lparr>ng := Some 3\<rparr>" 3 sample_env] sample_M d
    by simp
qed

section \<open>The density-unattainable error\<close>




section \<open>The sharp-cutoff policy of the solver\<close>

text \<open>
  Claim C4, amended. Under a sharp cutoff and for a target below the whole integral, the
  solver builds the grid of the copy (minimum mass \<open>8\<close>, step \<open>0.01\<close>), forms the
  cumulative trapezoidal integral of mass times abundance times total occupation in
  reverse mass order, takes the first index \<open>ind\<close> at which it exceeds the target, and
  restricts the integral and the reversed masses (without the largest) to the indices
  from \<open>ind - 4\<close> up to, but not including, \<open>ind + 4\<close>, clipped to the bounds: four points
  before the index, the index itself and three after it. It fits the cubic spline of
  scipy to the logarithm of the masses against the logarithm of the integral on that
  window and returns its value at \<open>ln ng\<close> divided by \<open>ln 10\<close>; where scipy rejects the
  points, the solver raises.
\<close>

theorem sharp_solver_window:
  assumes "self < length st" and "hod_sharp_cut e (hod_params (st ! self))"
    and "M e (solver_copy (st ! self)) = Inr ms" and "2 \<le> length ms"
    and "integral = cumtrapz (rev (gal_integrand e (solver_copy (st ! self)) ms))
                      (ln (ms ! 1) - ln (ms ! 0))"
    and "g < last integral"
  shows "\<exists>ind. first_index (\<lambda>v. g < v) integral = Some ind \<and>
           ind < length integral \<and> g < integral ! ind \<and> (\<forall>j < ind. \<not> g < integral ! j) \<and>
           length integral = length ms - 1 \<and>
           window integral ind (length ms)
             = map (nth integral) [ind - 4 ..< min (ind + 4) (length integral)] \<and>
           window (tl (rev ms)) ind (length ms)
             = map (nth (tl (rev ms))) [ind - 4 ..< min (ind + 4) (length integral)] \<and>
           fst (find_m_min e st self g)
             = (case spline e (map ln (window integral ind (length ms)))
                       (map ln (window (tl (rev ms)) ind (length ms))) 3 of
                  None \<Rightarrow> Inl LibraryError
                | Some f \<Rightarrow> Inr (ev f (ln g) / ln 10))"
  using assms by (rule sharp_solver_core)

theorem sharp_solver_window_witness:
  "hod_sharp_cut sample_env (hod_params ([sample_model] ! 0)) \<and>
   M sample_env (solver_copy ([sample_model] ! 0)) = Inr sample_grid \<and>
   cumtrapz (rev (gal_integrand sample_env (solver_copy ([sample_model] ! 0)) sample_grid))
     (ln (sample_grid ! 1) - ln (sample_grid ! 0)) = [1, 2, 3, 4, 5, 6, 7, 8, 9] \<and>
   (9 / 2 :: real) < last [1, 2, 3, 4, 5, 6, 7, 8, 9] \<and>
   first_index (\<lambda>v. 9 / 2 < v) [1, 2, 3, 4, 5, 6, 7, 8, 9 :: real] = Some 4 \<and>
   window [1, 2, 3, 4, 5, 6, 7, 8, 9 :: real] 4 (length sample_grid) = [1, 2, 3, 4, 5, 6, 7, 8] \<and>
   (\<exists>m. fst (find_m_min sample_env [sample_model] 0 (9 / 2)) = Inr m)"
proof -
  have g: "M sample_env (solver_copy ([sample_model] ! 0)) = Inr sample_grid"
    by (simp add: sample_grid_M)
  have l: "2 \<le> length sample_grid" by (simp add: sample_grid_length)
  have lt: "(9 / 2 :: real) < last [1, 2, 3, 4, 5, 6, 7, 8, 9]" by simp
  have w: "window [1, 2, 3, 4, 5, 6, 7, 8, 9 :: real] 4 (length sample_grid) = [1, 2, 3, 4, 5, 6, 7, 8]"
    unfolding sample_grid_length by (rule sample_window)
  obtain ind where ind: "first_index (\<lambda>v. 9 / 2 < v) [1, 2, 3, 4, 5, 6, 7, 8, 9 :: real] = Some ind"
    and res: "fst (find_m_min sample_env [sample_model] 0 (9 / 2))
       = (case spline sample_env (map ln (window [1, 2, 3, 4, 5, 6, 7, 8, 9] ind (length sample_grid)))
                 (map ln (window (tl (rev sample_grid)) ind (length sample_grid))) 3 of
            None \<Rightarrow> Inl LibraryError
          | Some f \<Rightarrow> Inr (ev f (ln (9 / 2)) / ln 10))"
    using sharp_solver_window [OF _ sample_sharp g l sample_I [symmetric] lt] by auto
  have i4: "ind = 4" using ind unfolding sample_first_index by simp
  obtain f where "spline sample_env (map ln (window [1, 2, 3, 4, 5, 6, 7, 8, 9] 4 (length sample_grid)))
                 (map ln (window (tl (rev sample_grid)) 4 (length sample_grid))) 3 = Some f"
    using sample_spline_some [of "map ln (window [1, 2, 3, 4, 5, 6, 7, 8, 9] 4 (length sample_grid))"]
    by (auto simp: w)
  then have "\<exists>m. fst (find_m_min sample_env [sample_model] 0 (9 / 2)) = Inr m"
    using res by (simp add: i4)
  then show ?thesis
    using sample_sharp g sample_I lt sample_first_index w by blast
qed

text \<open>The window of the claim as stated, four points on each side of the index, has one
  point more than the window of the code.\<close>

theorem window_four_each_side_counterexample:
  "cumtrapz (rev (gal_integrand sample_env (solver_copy ([sample_model] ! 0)) sample_grid))
     (ln (sample_grid ! 1) - ln (sample_grid ! 0)) = [1, 2, 3, 4, 5, 6, 7, 8, 9] \<and>
   first_index (\<lambda>v. 9 / 2 < v) [1, 2, 3, 4, 5, 6, 7, 8, 9 :: real] = Some 4 \<and>
   window [1, 2, 3, 4, 5, 6, 7, 8, 9 :: real] 4 (length sample_grid) = [1, 2, 3, 4, 5, 6, 7, 8] \<and>
   window_spec [1, 2, 3, 4, 5, 6, 7, 8, 9 :: real] 4 = [1, 2, 3, 4, 5, 6, 7, 8, 9] \<and>
   window [1, 2, 3, 4, 5, 6, 7, 8, 9 :: real] 4 (length sample_grid)
     \<noteq> window_spec [1, 2, 3, 4, 5, 6, 7, 8, 9 :: real] 4"
proof -
  have w: "window [1, 2, 3, 4, 5, 6, 7, 8, 9 :: real] 4 (length sample_grid) = [1, 2, 3, 4, 5, 6, 7, 8]"
    unfolding sample_grid_length by (rule sample_window)
  have ne: "window [1, 2, 3, 4, 5, 6, 7, 8, 9 :: real] 4 (length sample_grid)
              \<noteq> window_spec [1, 2, 3, 4, 5, 6, 7, 8, 9 :: real] 4"
    unfolding w sample_window_spec by simp
  show ?thesis
    using sample_I sample_first_index w sample_window_spec ne by blast
qed

section \<open>The smooth policy of the solver\<close>



section \<open>Copies of the configuration\<close>

text \<open>
  Claim C6, amended. The solver allocates one new object, a copy of the caller's, and
  writes to that object alone: the store afterwards is the store before with one object
  appended, so the caller's object is unchanged. The projection integrator allocates
  nothing and writes nothing: it reads the caller's object and leaves the store as it was.
\<close>

theorem solver_works_on_copy:
  assumes "self < length st"
  shows "(\<exists>cv. snd (find_m_min e st self g) = st @ [cv]) \<and>
         snd (find_m_min e st self g) ! self = st ! self \<and>
         snd (projected_corr_gal e st self) = st"
  using find_m_min_store [OF assms] find_m_min_frame [OF assms] projected_store by blast

theorem solver_works_on_copy_witness:
  "0 < length [sample_model] \<and>
   (\<exists>cv. snd (find_m_min sample_env [sample_model] 0 (9 / 2)) = [sample_model] @ [cv]) \<and>
   snd (find_m_min sample_env [sample_model] 0 (9 / 2)) ! 0 = [sample_model] ! 0 \<and>
   snd (projected_corr_gal sample_env [sample_model] 0) = [sample_model]"
  using solver_works_on_copy [of 0 "[sample_model]" sample_env "9 / 2"] by simp

text \<open>The claim as stated fails: after the projection there is no copy in the store.\<close>

theorem projection_makes_no_copy_counterexample:
  "\<not> (\<exists>cv. snd (projected_corr_gal sample_env [sample_model] 0) = [sample_model] @ [cv])"
  by (simp add: projected_store)

section \<open>The target density and an explicit minimum mass\<close>




section \<open>The projection integral\<close>

text \<open>
  Claim C7. Where the projected correlation function evaluates, its value at every
  radius \<open>rp\<close> of the grid is twice the Simpson integral, over a grid \<open>ys\<close>, of the fitted
  correlation at \<open>y + rp\<close> times \<open>(y + rp) / sqrt ((y + 2 rp) y)\<close>. The fit is the cubic
  spline of the logarithm of the positive correlation values against the logarithm of
  their radii. The slope \<open>a\<close> is the negated first derivative of the fit at \<open>ln rp\<close>, raised
  to \<open>1.3\<close> where it is smaller. The fraction \<open>frac\<close> is the closed form of
  \<open>_get_slope_frac\<close> at \<open>a\<close>, and \<open>ymin = frac * 0.005 ^ 2 * rp\<close> is positive. The grid has
  \<open>1000\<close> points, equally spaced in the logarithm, from \<open>ymin\<close> to \<open>max 80 (5 rp) - rp\<close>.
\<close>

theorem projection_rule:
  assumes "fst (projected_corr_gal e st self) = Inr p" and "i < length (r (st ! self))"
    and "rp = r (st ! self) ! i"
  shows "\<exists>cg f a q frac ymin ys.
           corr_gal e (st ! self) = Inr cg \<and>
           spline e (map (\<lambda>(x, c). ln x) (filter (\<lambda>(x, c). 0 < c) (zip (r (st ! self)) cg)))
                    (map (\<lambda>(x, c). ln c) (filter (\<lambda>(x, c). 0 < c) (zip (r (st ! self)) cg))) 3
             = Some f \<and>
           a = max (13 / 10) (- (derivatives f (ln rp) ! 1)) \<and> 13 / 10 \<le> a \<and>
           q = sqrt (5 - 8 * a + 4 * a ^ 2) \<and>
           frac = 2 powr (1 + 2 * a)
                    * (7 - 2 * a ^ 3 + 3 * q + a ^ 2 * (9 + q) - a * (13 + 3 * q))
                    * ((1 + q) / (a - 1)) powr (- 2 * a)
                  / ((a - 1) ^ 2 * (- 1 + 2 * a + q)) \<and>
           ymin = frac * (5 / 1000) ^ 2 * rp \<and> 0 < ymin \<and>
           length ys = 1000 \<and>
           (\<forall>k < 1000. ys ! k =
              10 powr (log 10 ymin
                       + real k * ((log 10 (max 80 (5 * rp) - rp) - log 10 ymin) / 999))) \<and>
           ys ! 0 = ymin \<and>
           last ys = max 80 (5 * rp) - rp \<and>
           length p = length (r (st ! self)) \<and>
           p ! i = 2 * simps_x e
                     (map (\<lambda>y. exp (ev f (ln (y + rp))) * (y + rp) / sqrt ((y + 2 * rp) * y)) ys)
                     ys"
  using assms by (rule projection_core)

theorem projection_rule_witness:
  "\<exists>p ymin ys. fst (projected_corr_gal sample_env [sample_model\<lparr>ng := Some 3\<rparr>] 0) = Inr p \<and>
       r ([sample_model\<lparr>ng := Some 3\<rparr>] ! 0) ! 0 = 1 \<and>
       length p = 4 \<and>
       ymin = 2 powr (1 + 2 * 2)
                * (7 - 2 * 2 ^ 3 + 3 * sqrt (5 - 8 * 2 + 4 * 2 ^ 2)
                   + 2 ^ 2 * (9 + sqrt (5 - 8 * 2 + 4 * 2 ^ 2))
                   - 2 * (13 + 3 * sqrt (5 - 8 * 2 + 4 * 2 ^ 2)))
                * ((1 + sqrt (5 - 8 * 2 + 4 * 2 ^ 2)) / (2 - 1)) powr (- 2 * 2)
              / ((2 - 1) ^ 2 * (- 1 + 2 * 2 + sqrt (5 - 8 * 2 + 4 * 2 ^ 2)))
              * (5 / 1000) ^ 2 * 1 \<and>
       0 < ymin \<and>
       length ys = 1000 \<and> ys ! 0 = ymin \<and> last ys = 79 \<and>
       (\<exists>f :: fit. p ! 0 = 2 * simps_x sample_env
                       (map (\<lambda>y. exp (ev f (ln (y + 1))) * (y + 1) / sqrt ((y + 2 * 1) * y)) ys)
                       ys)"
proof -
  let ?m = "sample_model\<lparr>ng := Some 3\<rparr>"
  obtain p where p: "fst (projected_corr_gal sample_env [?m] 0) = Inr p"
    using sample_projection_returns by blast
  have i: "0 < length (r ([?m] ! 0))" by (simp add: sample_r)
  have rp: "(1 :: real) = r ([?m] ! 0) ! 0" by (simp add: sample_r)
  from projection_rule [OF p i rp]
  obtain cg f a q frac ymin ys where
    f: "spline sample_env (map (\<lambda>(x, c). ln x) (filter (\<lambda>(x, c). 0 < c) (zip (r ([?m] ! 0)) cg)))
                    (map (\<lambda>(x, c). ln c) (filter (\<lambda>(x, c). 0 < c) (zip (r ([?m] ! 0)) cg))) 3
         = Some f"
    and a: "a = max (13 / 10) (- (derivatives f (ln 1) ! 1))"
    and q: "q = sqrt (5 - 8 * a + 4 * a ^ 2)"
    and frac: "frac = 2 powr (1 + 2 * a)
                    * (7 - 2 * a ^ 3 + 3 * q + a ^ 2 * (9 + q) - a * (13 + 3 * q))
                    * ((1 + q) / (a - 1)) powr (- 2 * a)
                  / ((a - 1) ^ 2 * (- 1 + 2 * a + q))"
    and ymin: "ymin = frac * (5 / 1000) ^ 2 * 1" and pos: "0 < ymin"
    and yl: "length ys = 1000"
    and y0: "ys ! 0 = ymin"
    and ylast: "last ys = max 80 (5 * 1) - 1"
    and lp: "length p = length (r ([?m] ! 0))"
    and v: "p ! 0 = 2 * simps_x sample_env
                     (map (\<lambda>y. exp (ev f (ln (y + 1))) * (y + 1) / sqrt ((y + 2 * 1) * y)) ys)
                     ys"
    by blast
  have a2: "a = 2"
    using a sample_spline_slope [OF f, of "ln 1"] by simp
  have l4: "length p = 4" using lp by (simp add: sample_r)
  have y79: "last ys = 79" using ylast by simp
  have r1: "r ([?m] ! 0) ! 0 = 1" using rp by simp
  have ym: "ymin = 2 powr (1 + 2 * 2)
                * (7 - 2 * 2 ^ 3 + 3 * sqrt (5 - 8 * 2 + 4 * 2 ^ 2)
                   + 2 ^ 2 * (9 + sqrt (5 - 8 * 2 + 4 * 2 ^ 2))
                   - 2 * (13 + 3 * sqrt (5 - 8 * 2 + 4 * 2 ^ 2)))
                * ((1 + sqrt (5 - 8 * 2 + 4 * 2 ^ 2)) / (2 - 1)) powr (- 2 * 2)
              / ((2 - 1) ^ 2 * (- 1 + 2 * 2 + sqrt (5 - 8 * 2 + 4 * 2 ^ 2)))
              * (5 / 1000) ^ 2 * 1"
    using ymin unfolding frac q a2 .
  have ex: "\<exists>f :: fit. p ! 0 = 2 * simps_x sample_env
                       (map (\<lambda>y. exp (ev f (ln (y + 1))) * (y + 1) / sqrt ((y + 2 * 1) * y)) ys)
                       ys"
    using v by (rule exI [of _ f])
  show ?thesis
    by (rule exI [of _ p], rule exI [of _ ymin], rule exI [of _ ys])
       (intro conjI p r1 l4 ym pos yl y0 y79 ex)
qed

end
